theory Spec2Isabelle
  imports
    Main
    "HOL-Library.AList"
    "HOL-Library.Char_ord"
    "HOL-Library.List_Lexorder"
    "HOL-Library.Product_Lexorder"
    "HOL-Library.Multiset"
begin

section \<open>Announcements endpoints: a shallow embedding of the router\<close>

text \<open>
  The module \<^verbatim>\<open>src/backend/routers/announcements.py\<close> holds five request handlers over
  two MongoDB collections. The handlers are embedded as functions that take the
  database and return a result together with the database afterwards. A raised exception
  is a value \<open>Inl e\<close>; a returned value is \<open>Inr v\<close>.

  What the handlers read from their environment is an argument of the model: the
  clock (\<open>datetime.now()\<close>, already formatted) and the identifier that
  \<open>insert_one\<close> generates.
\<close>

subsection \<open>Exceptions\<close>

text \<open>
  \<open>HTTPException status_code detail\<close> is FastAPI's exception; it derives from Python's
  \<open>Exception\<close>, as do the other exceptions here. The detail of the exception raised by
  the two \<open>except Exception as e\<close> handlers is the f-string
  \<^verbatim>\<open>f"Invalid announcement ID: {str(e)}"\<close>; it is kept as the constructor
  \<open>Invalid_announcement_ID e\<close>, which records the exception that was caught instead of
  the text the library renders for it.
\<close>

datatype exc =
    HTTPException nat detail
  | InvalidId string
  | TypeError
  | KeyError string
  | DuplicateKeyError
and detail =
    Detail string
  | Invalid_announcement_ID exc

subsection \<open>Identifiers (bson.ObjectId)\<close>

text \<open>
  \<open>ObjectId(s)\<close> on a \<open>str\<close> accepts exactly the strings of length 24 that
  \<open>bytes.fromhex\<close> decodes, and raises \<open>InvalidId\<close> otherwise; \<open>str(oid)\<close> is the
  lower-case hexadecimal rendering of the bytes. \<open>bytes.fromhex\<close> reads two
  hexadecimal digits per byte and skips ASCII whitespace in front of a byte.
\<close>

datatype ObjectId = Oid "nat list"

definition hex_value :: "char \<Rightarrow> nat option" where
  "hex_value c =
     (let n = (of_char c :: nat) in
      if 48 \<le> n \<and> n \<le> 57 then Some (n - 48)
      else if 97 \<le> n \<and> n \<le> 102 then Some (n - 87)
      else if 65 \<le> n \<and> n \<le> 70 then Some (n - 55)
      else None)"

definition isspace :: "char \<Rightarrow> bool" where
  "isspace c = ((of_char c :: nat) \<in> {9, 10, 11, 12, 13, 32})"

fun fromhex :: "string \<Rightarrow> nat list option" where
  "fromhex [] = Some []"
| "fromhex (c # cs) =
     (if isspace c then fromhex cs
      else (case cs of
              [] \<Rightarrow> None
            | d # ds \<Rightarrow>
                (case (hex_value c, hex_value d) of
                   (Some h, Some l) \<Rightarrow>
                     (case fromhex ds of
                        None \<Rightarrow> None
                      | Some bs \<Rightarrow> Some ((16 * h + l) # bs))
                 | _ \<Rightarrow> None)))"

definition ObjectId :: "string \<Rightarrow> exc + ObjectId" where
  "ObjectId s =
     (if length s = 24 then
        (case fromhex s of None \<Rightarrow> Inl (InvalidId s) | Some bs \<Rightarrow> Inr (Oid bs))
      else Inl (InvalidId s))"

definition hex_digit :: "nat \<Rightarrow> char" where
  "hex_digit n = ''0123456789abcdef'' ! (n mod 16)"

fun hexlify :: "nat list \<Rightarrow> string" where
  "hexlify [] = []"
| "hexlify (b # bs) = hex_digit (b div 16) # hex_digit b # hexlify bs"

subsection \<open>Documents and collections\<close>

text \<open>
  A document is a Python \<open>dict\<close> from field names to values. It is an association list
  read with \<open>map_of\<close> and written with \<open>AList.update\<close>, which replaces the value of a
  key in place and appends a new key at the end, as assignment to a \<open>dict\<close> does. The
  values that occur are \<open>None\<close>, strings and identifiers.
\<close>

datatype bval = BNull | BStr string | BOid ObjectId

type_synonym doc = "(string \<times> bval) list"

fun str :: "bval \<Rightarrow> string" where
  "str BNull = ''None''"
| "str (BStr s) = s"
| "str (BOid (Oid bs)) = hexlify bs"

text \<open>Truthiness of what \<open>dict.get\<close> returns: a missing key gives \<open>None\<close>.\<close>

fun truthy :: "bval option \<Rightarrow> bool" where
  "truthy None = False"
| "truthy (Some BNull) = False"
| "truthy (Some (BStr s)) = (s \<noteq> [])"
| "truthy (Some (BOid i)) = True"

text \<open>
  \<open>v <= current_date\<close> with a \<open>str\<close> on the right: strings compare
  lexicographically, any other left operand raises \<open>TypeError\<close>.
\<close>

fun le_str :: "bval \<Rightarrow> string \<Rightarrow> exc + bool" where
  "le_str (BStr s) t = Inr (s \<le> t)"
| "le_str v t = Inl TypeError"

record db =
  announcements_collection :: "doc list"
  teachers_collection :: "doc list"

text \<open>
  The queries the handlers send: \<open>{}\<close>, \<open>{k: v}\<close> and \<open>{k: {"$gte": s}}\<close> with a
  string \<open>s\<close>. An equality query for \<open>null\<close> also matches a document without the
  field; \<open>$gte\<close> with a string matches only string values.
\<close>

datatype query = Find_all | Field_eq string bval | Field_gte string string

fun matches :: "query \<Rightarrow> doc \<Rightarrow> bool" where
  "matches Find_all d = True"
| "matches (Field_eq k v) d = (case map_of d k of None \<Rightarrow> v = BNull | Some w \<Rightarrow> w = v)"
| "matches (Field_gte k s) d = (case map_of d k of Some (BStr t) \<Rightarrow> s \<le> t | _ \<Rightarrow> False)"

definition find_docs :: "query \<Rightarrow> doc list \<Rightarrow> doc list" where
  "find_docs q coll = filter (matches q) coll"

definition find_one :: "query \<Rightarrow> doc list \<Rightarrow> doc option" where
  "find_one q coll = List.find (matches q) coll"

text \<open>\<open>{"$set": upd}\<close> applied to a document.\<close>

definition set_fields :: "doc \<Rightarrow> doc \<Rightarrow> doc" where
  "set_fields upd d = fold (\<lambda>(k, v). AList.update k v) upd d"

text \<open>\<open>update_one\<close> changes the first matching document and reports \<open>matched_count\<close>.\<close>

fun update_one :: "query \<Rightarrow> doc \<Rightarrow> doc list \<Rightarrow> nat \<times> doc list" where
  "update_one q upd [] = (0, [])"
| "update_one q upd (d # ds) =
     (if matches q d then (1, set_fields upd d # ds)
      else (case update_one q upd ds of (n, ds') \<Rightarrow> (n, d # ds')))"

text \<open>\<open>delete_one\<close> removes the first matching document and reports \<open>deleted_count\<close>.\<close>

fun delete_one :: "query \<Rightarrow> doc list \<Rightarrow> nat \<times> doc list" where
  "delete_one q [] = (0, [])"
| "delete_one q (d # ds) =
     (if matches q d then (1, ds)
      else (case delete_one q ds of (n, ds') \<Rightarrow> (n, d # ds')))"

text \<open>
  \<open>insert_one\<close> adds the generated \<open>_id\<close> to the document it is given (the caller's
  \<open>dict\<close> is changed too, so the document is returned) and stores it; an \<open>_id\<close> that
  is already in the collection is refused.
\<close>

definition insert_one :: "ObjectId \<Rightarrow> doc \<Rightarrow> doc list \<Rightarrow> exc + (doc \<times> doc list)" where
  "insert_one new_id d coll =
     (let i = (case map_of d ''_id'' of None \<Rightarrow> BOid new_id | Some v \<Rightarrow> v);
          d' = (if map_of d ''_id'' = None then AList.update ''_id'' i d else d)
      in if find_one (Field_eq ''_id'' i) coll \<noteq> None
         then Inl DuplicateKeyError
         else Inr (d', coll @ [d']))"

text \<open>
  \<open>sort("created_at", -1)\<close>: BSON orders \<open>null\<close> (and a missing field) before strings
  and strings before identifiers; strings compare by their bytes. The order of documents
  with equal keys is the store's choice; here it is the reverse of the stable one.
\<close>

fun bson_key :: "bval option \<Rightarrow> nat \<times> nat list" where
  "bson_key None = (0, [])"
| "bson_key (Some BNull) = (0, [])"
| "bson_key (Some (BStr s)) = (1, map of_char s)"
| "bson_key (Some (BOid (Oid bs))) = (2, bs)"

definition sort_desc :: "string \<Rightarrow> doc list \<Rightarrow> doc list" where
  "sort_desc k coll = rev (sort_key (\<lambda>d. bson_key (map_of d k)) coll)"

subsection \<open>Request bodies\<close>

text \<open>
  The two pydantic models. The fields of \<open>AnnouncementUpdate\<close> carry the prefix
  \<open>upd_\<close>, since both models name their fields alike.
\<close>

record AnnouncementCreate =
  message :: string
  start_date :: "string option"
  expiration_date :: string
  created_by :: string

record AnnouncementUpdate =
  upd_message :: "string option"
  upd_start_date :: "string option"
  upd_expiration_date :: "string option"

subsection \<open>Shared steps of the handlers\<close>

text \<open>\<open>not teacher\<close>, for what \<open>find_one\<close> returned: \<open>None\<close> and the empty \<open>dict\<close> are falsy.\<close>

fun not_doc :: "doc option \<Rightarrow> bool" where
  "not_doc None = True"
| "not_doc (Some d) = (d = [])"

definition Unauthorized :: exc where
  "Unauthorized = HTTPException 401 (Detail ''Unauthorized'')"

text \<open>\<open>announcement["_id"] = str(announcement["_id"])\<close>, and the loop that does it.\<close>

definition stringify_id :: "doc \<Rightarrow> exc + doc" where
  "stringify_id a =
     (case map_of a ''_id'' of
        None \<Rightarrow> Inl (KeyError ''_id'')
      | Some v \<Rightarrow> Inr (AList.update ''_id'' (BStr (str v)) a))"

fun stringify_ids :: "doc list \<Rightarrow> exc + doc list" where
  "stringify_ids [] = Inr []"
| "stringify_ids (a # as) =
     (case stringify_id a of
        Inl e \<Rightarrow> Inl e
      | Inr a' \<Rightarrow> (case stringify_ids as of Inl e \<Rightarrow> Inl e | Inr as' \<Rightarrow> Inr (a' # as')))"

text \<open>The handler \<open>except Exception as e\<close> of \<open>update_announcement\<close> and \<open>delete_announcement\<close>.\<close>

fun except_Exception :: "(exc + 'a) \<times> db \<Rightarrow> (exc + 'a) \<times> db" where
  "except_Exception (Inl e, s) = (Inl (HTTPException 400 (Invalid_announcement_ID e)), s)"
| "except_Exception (Inr v, s) = (Inr v, s)"

subsection \<open>GET /announcements/active\<close>

text \<open>The loop of lines 45 to 51, with \<open>active_announcements\<close> as the accumulator.\<close>

fun filter_by_start_date :: "string \<Rightarrow> doc list \<Rightarrow> doc list \<Rightarrow> exc + doc list" where
  "filter_by_start_date current_date active_announcements [] = Inr active_announcements"
| "filter_by_start_date current_date active_announcements (announcement # rest) =
     (if truthy (map_of announcement ''start_date'') then
        (case map_of announcement ''start_date'' of
           None \<Rightarrow> Inl (KeyError ''start_date'')
         | Some v \<Rightarrow>
            (case le_str v current_date of
               Inl e \<Rightarrow> Inl e
             | Inr b \<Rightarrow>
                 if b then filter_by_start_date current_date (active_announcements @ [announcement]) rest
                 else filter_by_start_date current_date active_announcements rest))
      else filter_by_start_date current_date (active_announcements @ [announcement]) rest)"

definition get_active_announcements :: "string \<Rightarrow> db \<Rightarrow> (exc + doc list) \<times> db" where
  "get_active_announcements current_date s =
     (let query = Field_gte ''expiration_date'' current_date;
          announcements = find_docs query (announcements_collection s)
      in case filter_by_start_date current_date [] announcements of
           Inl e \<Rightarrow> (Inl e, s)
         | Inr active_announcements \<Rightarrow> (stringify_ids active_announcements, s))"

subsection \<open>GET /announcements/all\<close>

definition get_all_announcements :: "string \<Rightarrow> db \<Rightarrow> (exc + doc list) \<times> db" where
  "get_all_announcements username s =
     (let teacher = find_one (Field_eq ''_id'' (BStr username)) (teachers_collection s) in
      if not_doc teacher then (Inl Unauthorized, s)
      else
        (let announcements = sort_desc ''created_at'' (find_docs Find_all (announcements_collection s))
         in (stringify_ids announcements, s)))"

subsection \<open>POST /announcements/\<close>

text \<open>
  \<open>now_iso\<close> is \<open>datetime.now().isoformat()\<close> and \<open>new_id\<close> the identifier that
  \<open>insert_one\<close> generates.
\<close>

definition create_announcement ::
  "AnnouncementCreate \<Rightarrow> string \<Rightarrow> ObjectId \<Rightarrow> db \<Rightarrow> (exc + doc) \<times> db" where
  "create_announcement announcement now_iso new_id s =
     (let teacher = find_one (Field_eq ''_id'' (BStr (created_by announcement)))
                      (teachers_collection s) in
      if not_doc teacher then (Inl Unauthorized, s)
      else
        (let announcement_doc =
               [(''message'', BStr (message announcement)),
                (''start_date'', (case start_date announcement of None \<Rightarrow> BNull | Some d \<Rightarrow> BStr d)),
                (''expiration_date'', BStr (expiration_date announcement)),
                (''created_by'', BStr (created_by announcement)),
                (''created_at'', BStr now_iso)]
         in case insert_one new_id announcement_doc (announcements_collection s) of
              Inl e \<Rightarrow> (Inl e, s)
            | Inr (announcement_doc', coll') \<Rightarrow>
                (case map_of announcement_doc' ''_id'' of
                   None \<Rightarrow> (Inl (KeyError ''_id''), s\<lparr>announcements_collection := coll'\<rparr>)
                 | Some inserted_id \<Rightarrow>
                     (Inr (AList.update ''_id'' (BStr (str inserted_id)) announcement_doc'),
                      s\<lparr>announcements_collection := coll'\<rparr>))))"

subsection \<open>PUT /announcements/{announcement_id}\<close>

definition build_update_doc :: "AnnouncementUpdate \<Rightarrow> doc" where
  "build_update_doc announcement =
     (let update_doc = [];
          update_doc = (case upd_message announcement of
                          None \<Rightarrow> update_doc
                        | Some m \<Rightarrow> AList.update ''message'' (BStr m) update_doc);
          update_doc = (case upd_start_date announcement of
                          None \<Rightarrow> update_doc
                        | Some d \<Rightarrow> AList.update ''start_date'' (BStr d) update_doc);
          update_doc = (case upd_expiration_date announcement of
                          None \<Rightarrow> update_doc
                        | Some d \<Rightarrow> AList.update ''expiration_date'' (BStr d) update_doc)
      in update_doc)"

text \<open>
  The body of the \<open>try\<close> block. \<open>ObjectId(announcement_id)\<close> is evaluated twice in the
  source, with the same result; the model evaluates it once.
\<close>

definition update_try :: "string \<Rightarrow> doc \<Rightarrow> db \<Rightarrow> (exc + doc) \<times> db" where
  "update_try announcement_id update_doc s =
     (case ObjectId announcement_id of
        Inl e \<Rightarrow> (Inl e, s)
      | Inr oid \<Rightarrow>
          (case update_one (Field_eq ''_id'' (BOid oid)) update_doc (announcements_collection s) of
             (matched_count, coll') \<Rightarrow>
               (let s' = s\<lparr>announcements_collection := coll'\<rparr> in
                if matched_count = 0
                then (Inl (HTTPException 404 (Detail ''Announcement not found'')), s')
                else
                  (case find_one (Field_eq ''_id'' (BOid oid)) coll' of
                     None \<Rightarrow> (Inl TypeError, s')
                   | Some updated_announcement \<Rightarrow> (stringify_id updated_announcement, s')))))"

definition update_announcement ::
  "string \<Rightarrow> AnnouncementUpdate \<Rightarrow> string \<Rightarrow> db \<Rightarrow> (exc + doc) \<times> db" where
  "update_announcement announcement_id announcement username s =
     (let teacher = find_one (Field_eq ''_id'' (BStr username)) (teachers_collection s) in
      if not_doc teacher then (Inl Unauthorized, s)
      else
        (let update_doc = build_update_doc announcement in
         if update_doc = [] then (Inl (HTTPException 400 (Detail ''No fields to update'')), s)
         else except_Exception (update_try announcement_id update_doc s)))"

subsection \<open>DELETE /announcements/{announcement_id}\<close>

definition delete_try :: "string \<Rightarrow> db \<Rightarrow> (exc + doc) \<times> db" where
  "delete_try announcement_id s =
     (case ObjectId announcement_id of
        Inl e \<Rightarrow> (Inl e, s)
      | Inr oid \<Rightarrow>
          (case delete_one (Field_eq ''_id'' (BOid oid)) (announcements_collection s) of
             (deleted_count, coll') \<Rightarrow>
               (let s' = s\<lparr>announcements_collection := coll'\<rparr> in
                if deleted_count = 0
                then (Inl (HTTPException 404 (Detail ''Announcement not found'')), s')
                else (Inr [(''message'', BStr ''Announcement deleted successfully'')], s'))))"

definition delete_announcement :: "string \<Rightarrow> string \<Rightarrow> db \<Rightarrow> (exc + doc) \<times> db" where
  "delete_announcement announcement_id username s =
     (let teacher = find_one (Field_eq ''_id'' (BStr username)) (teachers_collection s) in
      if not_doc teacher then (Inl Unauthorized, s)
      else except_Exception (delete_try announcement_id s))"

section \<open>Notions of the specification\<close>

text \<open>A username is in the Teacher Directory when a teacher record has it as its key.\<close>

definition in_directory :: "string \<Rightarrow> db \<Rightarrow> bool" where
  "in_directory username s =
     (\<exists>t \<in> set (teachers_collection s). map_of t ''_id'' = Some (BStr username))"

text \<open>
  The store gives every document an \<open>_id\<close>. An announcement of the data model has a
  \<open>start_date\<close> that is missing, \<open>null\<close> or a string.
\<close>

definition has_id :: "doc \<Rightarrow> bool" where
  "has_id a = (map_of a ''_id'' \<noteq> None)"

definition conforms :: "doc \<Rightarrow> bool" where
  "conforms a =
     (has_id a \<and> (case map_of a ''start_date'' of Some (BOid i) \<Rightarrow> False | _ \<Rightarrow> True))"

text \<open>
  The selection of \<open>list_active\<close> in the words of the specification: the
  \<open>expiration_date\<close> is lexically at least the current date, and the \<open>start_date\<close> is
  absent (missing or \<open>null\<close>) or lexically at most the current date.
\<close>

definition spec_active :: "string \<Rightarrow> doc \<Rightarrow> bool" where
  "spec_active today a =
     ((case map_of a ''expiration_date'' of Some (BStr e) \<Rightarrow> today \<le> e | _ \<Rightarrow> False) \<and>
      (case map_of a ''start_date'' of
         None \<Rightarrow> True
       | Some BNull \<Rightarrow> True
       | Some (BStr st) \<Rightarrow> st \<le> today
       | Some (BOid i) \<Rightarrow> False))"

text \<open>What the loop of \<open>get_active_announcements\<close> keeps, on a conforming document.\<close>

definition started :: "string \<Rightarrow> doc \<Rightarrow> bool" where
  "started today a =
     (case map_of a ''start_date'' of
        None \<Rightarrow> True
      | Some BNull \<Rightarrow> True
      | Some (BStr st) \<Rightarrow> st \<le> today
      | Some (BOid i) \<Rightarrow> False)"

definition created_at_key :: "doc \<Rightarrow> nat \<times> nat list" where
  "created_at_key d = bson_key (map_of d ''created_at'')"

definition unused_id :: "ObjectId \<Rightarrow> db \<Rightarrow> bool" where
  "unused_id new_id s =
     (\<forall>d \<in> set (announcements_collection s). map_of d ''_id'' \<noteq> Some (BOid new_id))"

subsection \<open>A sample database\<close>

definition sample_teacher :: doc where
  "sample_teacher = [(''_id'', BStr ''t1''), (''display_name'', BStr ''Ms. Rodriguez'')]"

definition sample_exam :: doc where
  "sample_exam =
     [(''_id'', BOid (Oid [0, 0, 0, 0, 0, 0, 0, 0, 0, 0, 0, 1])),
      (''message'', BStr ''Exam tomorrow''),
      (''start_date'', BNull),
      (''expiration_date'', BStr ''2099-01-01''),
      (''created_by'', BStr ''t1''),
      (''created_at'', BStr ''2026-01-10T09:00:00.000001'')]"

definition sample_menu :: doc where
  "sample_menu =
     [(''_id'', BOid (Oid [0, 0, 0, 0, 0, 0, 0, 0, 0, 0, 0, 2])),
      (''message'', BStr ''New lunch menu''),
      (''start_date'', BStr []),
      (''expiration_date'', BStr ''2026-12-31''),
      (''created_by'', BStr ''t1''),
      (''created_at'', BStr ''2026-01-05T08:15:00.000002'')]"

definition sample_fair :: doc where
  "sample_fair =
     [(''_id'', BOid (Oid [0, 0, 0, 0, 0, 0, 0, 0, 0, 0, 0, 3])),
      (''message'', BStr ''Science fair''),
      (''start_date'', BStr ''2026-03-01''),
      (''expiration_date'', BStr ''2026-06-30''),
      (''created_by'', BStr ''t1''),
      (''created_at'', BStr ''2026-02-01T12:30:00.000003'')]"

definition sample_trip :: doc where
  "sample_trip =
     [(''_id'', BOid (Oid [0, 0, 0, 0, 0, 0, 0, 0, 0, 0, 0, 4])),
      (''message'', BStr ''Museum trip''),
      (''start_date'', BNull),
      (''expiration_date'', BStr ''2025-12-31''),
      (''created_by'', BStr ''t1''),
      (''created_at'', BStr ''2025-09-01T10:00:00.000004'')]"

definition sample_prom :: doc where
  "sample_prom =
     [(''_id'', BOid (Oid [0, 0, 0, 0, 0, 0, 0, 0, 0, 0, 0, 5])),
      (''message'', BStr ''Prom tickets''),
      (''start_date'', BStr ''2027-05-01''),
      (''expiration_date'', BStr ''2027-06-01''),
      (''created_by'', BStr ''t1''),
      (''created_at'', BStr ''2026-02-15T16:45:00.000005'')]"

definition sample_db :: db where
  "sample_db =
     \<lparr>announcements_collection =
        [sample_exam, sample_menu, sample_fair, sample_trip, sample_prom],
      teachers_collection = [sample_teacher]\<rparr>"

definition sample_create :: AnnouncementCreate where
  "sample_create =
     \<lparr>message = ''Exam tomorrow'', start_date = None,
      expiration_date = ''2099-01-01'', created_by = ''t1''\<rparr>"

definition only_message :: "string \<Rightarrow> AnnouncementUpdate" where
  "only_message m = \<lparr>upd_message = Some m, upd_start_date = None, upd_expiration_date = None\<rparr>"

definition empty_patch :: AnnouncementUpdate where
  "empty_patch = \<lparr>upd_message = None, upd_start_date = None, upd_expiration_date = None\<rparr>"

lemmas sample_defs =
  sample_db_def sample_exam_def sample_menu_def sample_fair_def sample_trip_def
  sample_prom_def sample_teacher_def sample_create_def only_message_def empty_patch_def

section \<open>Lemmas about the shared steps\<close>

lemma not_doc_find_one:
  "not_doc (find_one (Field_eq ''_id'' (BStr u)) ts) =
     (\<not> (\<exists>t \<in> set ts. map_of t ''_id'' = Some (BStr u)))"
  by (induction ts) (auto simp: find_one_def split: option.splits)

lemma not_doc_teacher:
  "not_doc (find_one (Field_eq ''_id'' (BStr u)) (teachers_collection s)) = (\<not> in_directory u s)"
  by (simp add: not_doc_find_one in_directory_def)

lemma find_one_None_iff:
  "(find_one q coll = None) = (\<forall>d \<in> set coll. \<not> matches q d)"
  by (auto simp: find_one_def find_None_iff)

lemma find_one_first:
  "\<forall>x \<in> set pre. \<not> matches q x \<Longrightarrow> matches q d \<Longrightarrow> find_one q (pre @ d # post) = Some d"
  by (induction pre) (auto simp: find_one_def)

lemma matches_id:
  "matches (Field_eq ''_id'' (BOid oid)) d = (map_of d ''_id'' = Some (BOid oid))"
  by (auto split: option.splits)

lemma list_all2_right_source:
  "list_all2 R xs ys \<Longrightarrow> y \<in> set ys \<Longrightarrow> \<exists>x \<in> set xs. R x y"
  by (induction xs ys rule: list_all2_induct) auto

lemma list_all2_left_image:
  "list_all2 R xs ys \<Longrightarrow> x \<in> set xs \<Longrightarrow> \<exists>y \<in> set ys. R x y"
  by (induction xs ys rule: list_all2_induct) auto

lemma list_all2_sorted_wrt:
  assumes "list_all2 R xs ys" and "sorted_wrt P xs"
      and "\<And>a b x y. R a x \<Longrightarrow> R b y \<Longrightarrow> P a b \<Longrightarrow> Q x y"
  shows "sorted_wrt Q ys"
  using assms(1,2)
proof (induction xs ys rule: list_all2_induct)
  case Nil
  then show ?case by simp
next
  case (Cons x xs y ys)
  have "Q y y'" if "y' \<in> set ys" for y'
  proof -
    from that Cons.hyps(2) obtain x' where "x' \<in> set xs" "R x' y'"
      by (blast dest: list_all2_right_source)
    with Cons.prems Cons.hyps(1) show ?thesis
      by (auto intro: assms(3))
  qed
  with Cons show ?case by simp
qed

text \<open>The loop over the identifiers succeeds exactly with the element-wise rendering.\<close>

lemma stringify_ids_iff:
  "stringify_ids as = Inr r \<longleftrightarrow> list_all2 (\<lambda>a x. stringify_id a = Inr x) as r"
proof (induction as arbitrary: r)
  case Nil
  then show ?case by auto
next
  case (Cons a as)
  show ?case
  proof (cases "stringify_id a")
    case (Inl e)
    then show ?thesis by (auto simp: list_all2_Cons1)
  next
    case (Inr a')
    show ?thesis
    proof (cases "stringify_ids as")
      case (Inl e)
      with Inr Cons.IH show ?thesis by (auto simp: list_all2_Cons1)
    next
      case r': (Inr as')
      with Inr Cons.IH [of as'] Cons.IH show ?thesis
        by (auto simp: list_all2_Cons1)
    qed
  qed
qed

lemma stringify_ids_total:
  "list_all has_id as \<Longrightarrow> \<exists>r. stringify_ids as = Inr r"
  by (induction as) (auto simp: has_id_def stringify_id_def split: sum.splits option.splits)

lemma stringify_id_other:
  "stringify_id a = Inr x \<Longrightarrow> k \<noteq> ''_id'' \<Longrightarrow> map_of x k = map_of a k"
  by (auto simp: stringify_id_def update_conv' split: option.splits)

lemma stringify_id_string:
  "stringify_id a = Inr x \<Longrightarrow> \<exists>i. map_of x ''_id'' = Some (BStr i)"
  by (auto simp: stringify_id_def update_conv' split: option.splits)

lemma Nil_le_string: "([]::string) \<le> t"
  by (cases t) simp_all

section \<open>The active announcements\<close>

lemma filter_by_start_date_conforms:
  "list_all conforms as \<Longrightarrow>
   filter_by_start_date today acc as = Inr (acc @ filter (started today) as)"
proof (induction as arbitrary: acc)
  case Nil
  then show ?case by simp
next
  case (Cons a as)
  then show ?case
    by (cases "map_of a ''start_date''"; cases "the (map_of a ''start_date'')")
       (auto simp: conforms_def started_def Nil_le_string)
qed

lemma spec_active_split:
  "spec_active today a = (matches (Field_gte ''expiration_date'' today) a \<and> started today a)"
  by (auto simp: spec_active_def started_def split: option.splits bval.splits)

lemma get_active_conforms:
  assumes "list_all conforms (announcements_collection s)"
  shows "get_active_announcements today s =
           (stringify_ids (filter (spec_active today) (announcements_collection s)), s)"
proof -
  have "list_all conforms
          (find_docs (Field_gte ''expiration_date'' today) (announcements_collection s))"
    using assms by (simp add: find_docs_def list_all_iff)
  then show ?thesis
    by (simp add: get_active_announcements_def filter_by_start_date_conforms find_docs_def
        spec_active_split [abs_def] conj_commute del: matches.simps)
qed

lemma sample_conforms: "list_all conforms (announcements_collection sample_db)"
  by (simp add: sample_defs conforms_def has_id_def)

lemma sample_active:
  "filter (spec_active ''2026-04-15'') (announcements_collection sample_db) =
     [sample_exam, sample_menu, sample_fair]"
  by (simp add: sample_defs spec_active_def)

text \<open>
  C3. On a store of conforming documents \<open>get_active_announcements\<close> returns, in the
  order of the store and with the identifiers rendered, exactly the announcements
  that \<open>spec_active\<close> selects: those whose \<open>expiration_date\<close> is lexically at least the
  current date and whose \<open>start_date\<close> is absent or lexically at most the current date.
  In particular every announcement returned has an \<open>expiration_date\<close> that is not
  before the current date, and none has a \<open>start_date\<close> after it.
\<close>

theorem list_active_exact:
  assumes "list_all conforms (announcements_collection s)"
  shows "\<exists>r. get_active_announcements today s = (Inr r, s) \<and>
           list_all2 (\<lambda>a x. stringify_id a = Inr x)
             (filter (spec_active today) (announcements_collection s)) r \<and>
           (\<forall>x \<in> set r.
              (\<exists>e. map_of x ''expiration_date'' = Some (BStr e) \<and> today \<le> e) \<and>
              (\<forall>st. map_of x ''start_date'' = Some (BStr st) \<longrightarrow> st \<le> today))"
proof -
  let ?act = "filter (spec_active today) (announcements_collection s)"
  have "list_all has_id ?act"
    using assms by (simp add: list_all_iff conforms_def)
  then obtain r where r: "stringify_ids ?act = Inr r"
    using stringify_ids_total by blast
  then have rel: "list_all2 (\<lambda>a x. stringify_id a = Inr x) ?act r"
    by (simp add: stringify_ids_iff)
  have "(\<exists>e. map_of x ''expiration_date'' = Some (BStr e) \<and> today \<le> e) \<and>
        (\<forall>st. map_of x ''start_date'' = Some (BStr st) \<longrightarrow> st \<le> today)"
    if "x \<in> set r" for x
  proof -
    from that rel obtain a where a: "a \<in> set ?act" "stringify_id a = Inr x"
      by (blast dest: list_all2_right_source)
    then have act: "spec_active today a" by simp
    have "map_of x ''expiration_date'' = map_of a ''expiration_date''"
         "map_of x ''start_date'' = map_of a ''start_date''"
      using a(2) by (simp_all add: stringify_id_other)
    with act show ?thesis
      by (auto simp: spec_active_def split: option.splits bval.splits)
  qed
  with r rel show ?thesis
    using get_active_conforms [OF assms, of today] by auto
qed

theorem list_active_exact_witness:
  "list_all conforms (announcements_collection sample_db) \<and>
   get_active_announcements ''2026-04-15'' sample_db =
     (Inr [AList.update ''_id'' (BStr ''000000000000000000000001'') sample_exam,
           AList.update ''_id'' (BStr ''000000000000000000000002'') sample_menu,
           AList.update ''_id'' (BStr ''000000000000000000000003'') sample_fair],
      sample_db)"
proof -
  from list_active_exact [OF sample_conforms, of "''2026-04-15''"]
  obtain r where r: "get_active_announcements ''2026-04-15'' sample_db = (Inr r, sample_db)"
    and rel: "list_all2 (\<lambda>a x. stringify_id a = Inr x)
                (filter (spec_active ''2026-04-15'') (announcements_collection sample_db)) r"
    by blast
  from rel have "r = [AList.update ''_id'' (BStr ''000000000000000000000001'') sample_exam,
           AList.update ''_id'' (BStr ''000000000000000000000002'') sample_menu,
           AList.update ''_id'' (BStr ''000000000000000000000003'') sample_fair]"
    unfolding sample_active
    by (auto simp: list_all2_Cons1 stringify_id_def sample_defs hex_digit_def)
  with r sample_conforms show ?thesis by simp
qed

text \<open>
  C9. An announcement whose \<open>start_date\<close> is missing, \<open>null\<close> or the empty string, and
  whose \<open>expiration_date\<close> is lexically at least the current date, is among the
  announcements that \<open>get_active_announcements\<close> returns: the loop tests the truth value
  of \<open>announcement.get("start_date")\<close>, which is false in all three cases.
\<close>

theorem list_active_falsy_start_date:
  assumes "list_all conforms (announcements_collection s)"
      and "a \<in> set (announcements_collection s)"
      and "map_of a ''start_date'' = None \<or> map_of a ''start_date'' = Some BNull
             \<or> map_of a ''start_date'' = Some (BStr [])"
      and "map_of a ''expiration_date'' = Some (BStr e)" and "today \<le> e"
  shows "\<exists>r a'. get_active_announcements today s = (Inr r, s) \<and>
           stringify_id a = Inr a' \<and> a' \<in> set r"
proof -
  let ?act = "filter (spec_active today) (announcements_collection s)"
  have act: "a \<in> set ?act"
    using assms(2-5) by (auto simp: spec_active_def Nil_le_string)
  have "list_all has_id ?act"
    using assms(1) by (simp add: list_all_iff conforms_def)
  then obtain r where r: "stringify_ids ?act = Inr r"
    using stringify_ids_total by blast
  then have "list_all2 (\<lambda>a x. stringify_id a = Inr x) ?act r"
    by (simp add: stringify_ids_iff)
  with act obtain a' where "stringify_id a = Inr a'" "a' \<in> set r"
    by (blast dest: list_all2_left_image)
  with r show ?thesis
    using get_active_conforms [OF assms(1), of today] by auto
qed

theorem list_active_falsy_start_date_witness:
  "list_all conforms (announcements_collection sample_db) \<and>
   sample_menu \<in> set (announcements_collection sample_db) \<and>
   map_of sample_menu ''start_date'' = Some (BStr []) \<and>
   map_of sample_menu ''expiration_date'' = Some (BStr ''2026-12-31'') \<and>
   ''2026-04-15'' \<le> ''2026-12-31'' \<and>
   (\<exists>r. get_active_announcements ''2026-04-15'' sample_db = (Inr r, sample_db) \<and>
        AList.update ''_id'' (BStr ''000000000000000000000002'') sample_menu \<in> set r) \<and>
   sample_exam \<in> set (announcements_collection sample_db) \<and>
   map_of sample_exam ''start_date'' = Some BNull \<and>
   map_of sample_exam ''expiration_date'' = Some (BStr ''2099-01-01'') \<and>
   ''2026-04-15'' \<le> ''2099-01-01'' \<and>
   (\<exists>r. get_active_announcements ''2026-04-15'' sample_db = (Inr r, sample_db) \<and>
        AList.update ''_id'' (BStr ''000000000000000000000001'') sample_exam \<in> set r)"
proof -
  have m: "sample_menu \<in> set (announcements_collection sample_db)"
    and x: "sample_exam \<in> set (announcements_collection sample_db)"
    by (simp_all add: sample_db_def)
  have ms: "map_of sample_menu ''start_date'' = Some (BStr [])"
    and me: "map_of sample_menu ''expiration_date'' = Some (BStr ''2026-12-31'')"
    and xs: "map_of sample_exam ''start_date'' = Some BNull"
    and xe: "map_of sample_exam ''expiration_date'' = Some (BStr ''2099-01-01'')"
    by (simp_all add: sample_menu_def sample_exam_def)
  have le: "''2026-04-15'' \<le> ''2026-12-31''" "''2026-04-15'' \<le> ''2099-01-01''"
    by simp_all
  have rm: "stringify_id sample_menu =
              Inr (AList.update ''_id'' (BStr ''000000000000000000000002'') sample_menu)"
    and rx: "stringify_id sample_exam =
              Inr (AList.update ''_id'' (BStr ''000000000000000000000001'') sample_exam)"
    by (simp_all add: stringify_id_def sample_menu_def sample_exam_def hex_digit_def)
  from list_active_falsy_start_date [OF sample_conforms m _ me le(1)] ms rm
  have 1: "\<exists>r. get_active_announcements ''2026-04-15'' sample_db = (Inr r, sample_db) \<and>
        AList.update ''_id'' (BStr ''000000000000000000000002'') sample_menu \<in> set r"
    by auto
  from list_active_falsy_start_date [OF sample_conforms x _ xe le(2)] xs rx
  have 2: "\<exists>r. get_active_announcements ''2026-04-15'' sample_db = (Inr r, sample_db) \<and>
        AList.update ''_id'' (BStr ''000000000000000000000001'') sample_exam \<in> set r"
    by auto
  from sample_conforms m ms me le x xs xe 1 2 show ?thesis by blast
qed

section \<open>All announcements\<close>

lemma sort_desc_mset: "mset (sort_desc k coll) = mset coll"
  by (simp add: sort_desc_def)

lemma sort_desc_sorted:
  "sorted_wrt (\<lambda>x y. bson_key (map_of y k) \<le> bson_key (map_of x k)) (sort_desc k coll)"
proof -
  have "sorted (map (\<lambda>d. bson_key (map_of d k)) (sort_key (\<lambda>d. bson_key (map_of d k)) coll))"
    by (rule sorted_sort_key)
  then have "sorted_wrt (\<lambda>x y. bson_key (map_of x k) \<le> bson_key (map_of y k))
               (sort_key (\<lambda>d. bson_key (map_of d k)) coll)"
    by (simp add: sorted_map)
  then show ?thesis
    by (simp add: sort_desc_def sorted_wrt_rev)
qed

lemma stringify_ids_not_Unauthorized: "stringify_ids xs \<noteq> Inl Unauthorized"
  by (induction xs)
     (auto simp: stringify_id_def Unauthorized_def split: sum.splits option.splits)

text \<open>
  C4. \<open>get_all_announcements\<close> raises \<open>HTTPException 401 Unauthorized\<close> exactly when
  the username is not in the Teacher Directory. For a known username it returns the
  stored announcements, all of them and each once, with the identifier rendered as a
  string, ordered by \<open>created_at\<close> from the newest to the oldest.
\<close>

theorem list_all_authorized_sorted:
  "(fst (get_all_announcements username s) = Inl Unauthorized) = (\<not> in_directory username s)
   \<and> Unauthorized = HTTPException 401 (Detail ''Unauthorized'')
   \<and> (in_directory username s \<and> list_all has_id (announcements_collection s) \<longrightarrow>
        (\<exists>r ys. get_all_announcements username s = (Inr r, s) \<and>
           mset ys = mset (announcements_collection s) \<and>
           list_all2 (\<lambda>a x. stringify_id a = Inr x) ys r \<and>
           list_all (\<lambda>x. \<exists>i. map_of x ''_id'' = Some (BStr i)) r \<and>
           sorted_wrt (\<lambda>x y. created_at_key y \<le> created_at_key x) r))"
proof (intro conjI impI)
  show "(fst (get_all_announcements username s) = Inl Unauthorized) = (\<not> in_directory username s)"
    by (cases "in_directory username s")
       (simp_all add: get_all_announcements_def not_doc_teacher stringify_ids_not_Unauthorized)
next
  show "Unauthorized = HTTPException 401 (Detail ''Unauthorized'')"
    by (simp add: Unauthorized_def)
next
  assume a: "in_directory username s \<and> list_all has_id (announcements_collection s)"
  let ?ys = "sort_desc ''created_at'' (announcements_collection s)"
  have "list_all has_id ?ys"
    using a by (simp add: list_all_iff sort_desc_def)
  then obtain r where r: "stringify_ids ?ys = Inr r"
    using stringify_ids_total by blast
  then have rel: "list_all2 (\<lambda>a x. stringify_id a = Inr x) ?ys r"
    by (simp add: stringify_ids_iff)
  have srt: "sorted_wrt (\<lambda>x y. created_at_key y \<le> created_at_key x) r"
    using rel sort_desc_sorted [of "''created_at''" "announcements_collection s"]
    by (rule list_all2_sorted_wrt) (simp add: created_at_key_def stringify_id_other)
  have ids: "list_all (\<lambda>x. \<exists>i. map_of x ''_id'' = Some (BStr i)) r"
    unfolding list_all_iff
    using rel by (blast dest: list_all2_right_source stringify_id_string)
  from a r rel srt ids
  show "\<exists>r ys. get_all_announcements username s = (Inr r, s) \<and>
           mset ys = mset (announcements_collection s) \<and>
           list_all2 (\<lambda>a x. stringify_id a = Inr x) ys r \<and>
           list_all (\<lambda>x. \<exists>i. map_of x ''_id'' = Some (BStr i)) r \<and>
           sorted_wrt (\<lambda>x y. created_at_key y \<le> created_at_key x) r"
    by (intro exI [of _ r] exI [of _ ?ys])
       (simp add: get_all_announcements_def not_doc_teacher find_docs_def sort_desc_mset)
qed

lemma sample_known: "in_directory ''t1'' sample_db"
  by (simp add: in_directory_def sample_defs)

lemma sample_unknown: "\<not> in_directory ''mallory'' sample_db"
  by (simp add: in_directory_def sample_defs)

lemma sample_has_id: "list_all has_id (announcements_collection sample_db)"
  by (simp add: sample_defs has_id_def)

lemma sample_all_sorted:
  "get_all_announcements ''t1'' sample_db =
     (Inr [AList.update ''_id'' (BStr ''000000000000000000000005'') sample_prom,
           AList.update ''_id'' (BStr ''000000000000000000000003'') sample_fair,
           AList.update ''_id'' (BStr ''000000000000000000000001'') sample_exam,
           AList.update ''_id'' (BStr ''000000000000000000000002'') sample_menu,
           AList.update ''_id'' (BStr ''000000000000000000000004'') sample_trip],
      sample_db)"
  by (simp add: get_all_announcements_def find_one_def find_docs_def sort_desc_def
      stringify_id_def sample_defs hex_digit_def)

theorem list_all_authorized_sorted_witness:
  "\<not> in_directory ''mallory'' sample_db \<and>
   fst (get_all_announcements ''mallory'' sample_db) = Inl (HTTPException 401 (Detail ''Unauthorized'')) \<and>
   in_directory ''t1'' sample_db \<and> list_all has_id (announcements_collection sample_db) \<and>
   (\<exists>r ys. get_all_announcements ''t1'' sample_db = (Inr r, sample_db) \<and>
      mset ys = mset (announcements_collection sample_db) \<and>
      list_all2 (\<lambda>a x. stringify_id a = Inr x) ys r \<and>
      list_all (\<lambda>x. \<exists>i. map_of x ''_id'' = Some (BStr i)) r \<and>
      sorted_wrt (\<lambda>x y. created_at_key y \<le> created_at_key x) r) \<and>
   get_all_announcements ''t1'' sample_db =
     (Inr [AList.update ''_id'' (BStr ''000000000000000000000005'') sample_prom,
           AList.update ''_id'' (BStr ''000000000000000000000003'') sample_fair,
           AList.update ''_id'' (BStr ''000000000000000000000001'') sample_exam,
           AList.update ''_id'' (BStr ''000000000000000000000002'') sample_menu,
           AList.update ''_id'' (BStr ''000000000000000000000004'') sample_trip],
      sample_db)"
  using list_all_authorized_sorted [of "''mallory''" sample_db]
    list_all_authorized_sorted [of "''t1''" sample_db]
    sample_known sample_unknown sample_has_id sample_all_sorted
  by simp

section \<open>Creating an announcement\<close>

text \<open>
  C5. When \<open>created_by\<close> is not in the Teacher Directory, \<open>create_announcement\<close> raises
  \<open>HTTPException 401 Unauthorized\<close> and the database is as before. When it is, and the
  generated identifier is not yet in the collection, the document built from the
  request and the clock is appended to the collection with the identifier as its
  \<open>_id\<close>, and the same document is returned with the identifier rendered as a string.
\<close>

theorem create_unauthorized_or_stored:
  "(\<not> in_directory (created_by a) s \<longrightarrow>
      create_announcement a now_iso new_id s = (Inl (HTTPException 401 (Detail ''Unauthorized'')), s))
   \<and> (in_directory (created_by a) s \<and> unused_id new_id s \<longrightarrow>
      create_announcement a now_iso new_id s =
        (Inr [(''message'', BStr (message a)),
              (''start_date'', (case start_date a of None \<Rightarrow> BNull | Some d \<Rightarrow> BStr d)),
              (''expiration_date'', BStr (expiration_date a)),
              (''created_by'', BStr (created_by a)),
              (''created_at'', BStr now_iso),
              (''_id'', BStr (str (BOid new_id)))],
         s\<lparr>announcements_collection := announcements_collection s @
              [[(''message'', BStr (message a)),
                (''start_date'', (case start_date a of None \<Rightarrow> BNull | Some d \<Rightarrow> BStr d)),
                (''expiration_date'', BStr (expiration_date a)),
                (''created_by'', BStr (created_by a)),
                (''created_at'', BStr now_iso),
                (''_id'', BOid new_id)]]\<rparr>))"
proof (intro conjI impI)
  assume "\<not> in_directory (created_by a) s"
  then show "create_announcement a now_iso new_id s =
               (Inl (HTTPException 401 (Detail ''Unauthorized'')), s)"
    by (simp add: create_announcement_def not_doc_teacher Unauthorized_def)
next
  assume h: "in_directory (created_by a) s \<and> unused_id new_id s"
  then have "find_one (Field_eq ''_id'' (BOid new_id)) (announcements_collection s) = None"
    by (auto simp: find_one_None_iff unused_id_def split: option.splits)
  with h show "create_announcement a now_iso new_id s =
        (Inr [(''message'', BStr (message a)),
              (''start_date'', (case start_date a of None \<Rightarrow> BNull | Some d \<Rightarrow> BStr d)),
              (''expiration_date'', BStr (expiration_date a)),
              (''created_by'', BStr (created_by a)),
              (''created_at'', BStr now_iso),
              (''_id'', BStr (str (BOid new_id)))],
         s\<lparr>announcements_collection := announcements_collection s @
              [[(''message'', BStr (message a)),
                (''start_date'', (case start_date a of None \<Rightarrow> BNull | Some d \<Rightarrow> BStr d)),
                (''expiration_date'', BStr (expiration_date a)),
                (''created_by'', BStr (created_by a)),
                (''created_at'', BStr now_iso),
                (''_id'', BOid new_id)]]\<rparr>)"
    by (simp add: create_announcement_def not_doc_teacher insert_one_def Let_def)
qed

theorem create_unauthorized_or_stored_witness:
  "\<not> in_directory (created_by (sample_create\<lparr>created_by := ''mallory''\<rparr>)) sample_db \<and>
   create_announcement (sample_create\<lparr>created_by := ''mallory''\<rparr>) ''2026-04-15T08:00:00.123456''
       (Oid [0, 0, 0, 0, 0, 0, 0, 0, 0, 0, 0, 6]) sample_db
     = (Inl (HTTPException 401 (Detail ''Unauthorized'')), sample_db) \<and>
   in_directory (created_by sample_create) sample_db \<and>
   unused_id (Oid [0, 0, 0, 0, 0, 0, 0, 0, 0, 0, 0, 6]) sample_db \<and>
   create_announcement sample_create ''2026-04-15T08:00:00.123456''
       (Oid [0, 0, 0, 0, 0, 0, 0, 0, 0, 0, 0, 6]) sample_db
     = (Inr [(''message'', BStr ''Exam tomorrow''),
             (''start_date'', BNull),
             (''expiration_date'', BStr ''2099-01-01''),
             (''created_by'', BStr ''t1''),
             (''created_at'', BStr ''2026-04-15T08:00:00.123456''),
             (''_id'', BStr ''000000000000000000000006'')],
        sample_db\<lparr>announcements_collection :=
          [sample_exam, sample_menu, sample_fair, sample_trip, sample_prom,
           [(''message'', BStr ''Exam tomorrow''),
            (''start_date'', BNull),
            (''expiration_date'', BStr ''2099-01-01''),
            (''created_by'', BStr ''t1''),
            (''created_at'', BStr ''2026-04-15T08:00:00.123456''),
            (''_id'', BOid (Oid [0, 0, 0, 0, 0, 0, 0, 0, 0, 0, 0, 6]))]]\<rparr>)"
proof -
  have u: "\<not> in_directory (created_by (sample_create\<lparr>created_by := ''mallory''\<rparr>)) sample_db"
    using sample_unknown by simp
  have k: "in_directory (created_by sample_create) sample_db"
    using sample_known by (simp add: sample_create_def)
  have f: "unused_id (Oid [0, 0, 0, 0, 0, 0, 0, 0, 0, 0, 0, 6]) sample_db"
    by (simp add: unused_id_def sample_defs)
  from create_unauthorized_or_stored
         [of "sample_create\<lparr>created_by := ''mallory''\<rparr>" sample_db "''2026-04-15T08:00:00.123456''"
             "Oid [0, 0, 0, 0, 0, 0, 0, 0, 0, 0, 0, 6]"] u
  have 1: "create_announcement (sample_create\<lparr>created_by := ''mallory''\<rparr>)
             ''2026-04-15T08:00:00.123456'' (Oid [0, 0, 0, 0, 0, 0, 0, 0, 0, 0, 0, 6]) sample_db
           = (Inl (HTTPException 401 (Detail ''Unauthorized'')), sample_db)"
    by blast
  from create_unauthorized_or_stored
         [of sample_create sample_db "''2026-04-15T08:00:00.123456''"
             "Oid [0, 0, 0, 0, 0, 0, 0, 0, 0, 0, 0, 6]"] k f
  have 2: "create_announcement sample_create ''2026-04-15T08:00:00.123456''
       (Oid [0, 0, 0, 0, 0, 0, 0, 0, 0, 0, 0, 6]) sample_db
     = (Inr [(''message'', BStr ''Exam tomorrow''),
             (''start_date'', BNull),
             (''expiration_date'', BStr ''2099-01-01''),
             (''created_by'', BStr ''t1''),
             (''created_at'', BStr ''2026-04-15T08:00:00.123456''),
             (''_id'', BStr ''000000000000000000000006'')],
        sample_db\<lparr>announcements_collection :=
          [sample_exam, sample_menu, sample_fair, sample_trip, sample_prom,
           [(''message'', BStr ''Exam tomorrow''),
            (''start_date'', BNull),
            (''expiration_date'', BStr ''2099-01-01''),
            (''created_by'', BStr ''t1''),
            (''created_at'', BStr ''2026-04-15T08:00:00.123456''),
            (''_id'', BOid (Oid [0, 0, 0, 0, 0, 0, 0, 0, 0, 0, 0, 6]))]]\<rparr>)"
    by (simp add: sample_create_def sample_db_def hex_digit_def)
  from u k f 1 2 show ?thesis by blast
qed

section \<open>Updating an announcement\<close>

lemma build_update_doc_Nil:
  "(build_update_doc p = []) =
     (upd_message p = None \<and> upd_start_date p = None \<and> upd_expiration_date p = None)"
  by (auto simp: build_update_doc_def split: option.splits)

lemma update_one_cases:
  "update_one q upd ds = (n, ds') \<Longrightarrow>
     (n = 0 \<and> ds' = ds \<and> (\<forall>d \<in> set ds. \<not> matches q d)) \<or>
     (n = 1 \<and> (\<exists>pre d post. ds = pre @ d # post \<and> (\<forall>x \<in> set pre. \<not> matches q x) \<and>
                  matches q d \<and> ds' = pre @ set_fields upd d # post))"
proof (induction ds arbitrary: n ds')
  case Nil
  then show ?case by simp
next
  case (Cons a ds)
  show ?case
  proof (cases "matches q a")
    case True
    with Cons.prems have "n = 1" "ds' = set_fields upd a # ds" by simp_all
    with True show ?thesis by (intro disjI2) (auto intro: exI [of _ "[]"])
  next
    case False
    obtain m es where rec: "update_one q upd ds = (m, es)" by (cases "update_one q upd ds")
    with False Cons.prems have eq: "n = m" "ds' = a # es" by simp_all
    from Cons.IH [OF rec] show ?thesis
    proof
      assume "m = 0 \<and> es = ds \<and> (\<forall>d \<in> set ds. \<not> matches q d)"
      with False eq show ?thesis by simp
    next
      assume "m = 1 \<and> (\<exists>pre d post. ds = pre @ d # post \<and> (\<forall>x \<in> set pre. \<not> matches q x) \<and>
                  matches q d \<and> es = pre @ set_fields upd d # post)"
      then obtain pre d post where
        "m = 1" "ds = pre @ d # post" "\<forall>x \<in> set pre. \<not> matches q x" "matches q d"
        "es = pre @ set_fields upd d # post" by blast
      with False eq show ?thesis
        by (intro disjI2) (auto intro!: exI [of _ "a # pre"])
    qed
  qed
qed

lemma update_one_unmatched:
  "\<forall>d \<in> set ds. \<not> matches q d \<Longrightarrow> update_one q upd ds = (0, ds)"
  by (induction ds) auto

text \<open>What \<open>$set\<close> with the document built from a patch does to each field.\<close>

lemma set_fields_message:
  "map_of (set_fields (build_update_doc p) d) ''message'' =
     (case upd_message p of None \<Rightarrow> map_of d ''message'' | Some m \<Rightarrow> Some (BStr m))"
  by (cases "upd_message p"; cases "upd_start_date p"; cases "upd_expiration_date p")
     (simp_all add: build_update_doc_def set_fields_def update_conv')

lemma set_fields_start_date:
  "map_of (set_fields (build_update_doc p) d) ''start_date'' =
     (case upd_start_date p of None \<Rightarrow> map_of d ''start_date'' | Some v \<Rightarrow> Some (BStr v))"
  by (cases "upd_message p"; cases "upd_start_date p"; cases "upd_expiration_date p")
     (simp_all add: build_update_doc_def set_fields_def update_conv')

lemma set_fields_expiration_date:
  "map_of (set_fields (build_update_doc p) d) ''expiration_date'' =
     (case upd_expiration_date p of None \<Rightarrow> map_of d ''expiration_date''
      | Some v \<Rightarrow> Some (BStr v))"
  by (cases "upd_message p"; cases "upd_start_date p"; cases "upd_expiration_date p")
     (simp_all add: build_update_doc_def set_fields_def update_conv')

lemma set_fields_other:
  "k \<notin> {''message'', ''start_date'', ''expiration_date''} \<Longrightarrow>
   map_of (set_fields (build_update_doc p) d) k = map_of d k"
  by (cases "upd_message p"; cases "upd_start_date p"; cases "upd_expiration_date p")
     (simp_all add: build_update_doc_def set_fields_def update_conv')

text \<open>
  C6. A successful \<open>update_announcement\<close> changes one document of the collection, the
  first whose \<open>_id\<close> is the parsed identifier, and nothing else in the database. In
  that document each of \<open>message\<close>, \<open>start_date\<close> and \<open>expiration_date\<close> takes the
  value of the patch when the patch gives one and keeps its value otherwise, and every
  other field (\<open>created_by\<close>, \<open>created_at\<close>, \<open>_id\<close>) keeps its value. The document
  returned is the updated one with the identifier rendered.
\<close>

theorem update_changes_only_patched_fields:
  assumes "update_announcement announcement_id p username s = (Inr r, s')"
  shows "\<exists>oid pre d d' post.
           ObjectId announcement_id = Inr oid \<and>
           announcements_collection s = pre @ d # post \<and>
           (\<forall>x \<in> set pre. map_of x ''_id'' \<noteq> Some (BOid oid)) \<and>
           map_of d ''_id'' = Some (BOid oid) \<and>
           s' = s\<lparr>announcements_collection := pre @ d' # post\<rparr> \<and>
           map_of d' ''message'' =
             (case upd_message p of None \<Rightarrow> map_of d ''message'' | Some m \<Rightarrow> Some (BStr m)) \<and>
           map_of d' ''start_date'' =
             (case upd_start_date p of None \<Rightarrow> map_of d ''start_date''
              | Some v \<Rightarrow> Some (BStr v)) \<and>
           map_of d' ''expiration_date'' =
             (case upd_expiration_date p of None \<Rightarrow> map_of d ''expiration_date''
              | Some v \<Rightarrow> Some (BStr v)) \<and>
           (\<forall>k. k \<notin> {''message'', ''start_date'', ''expiration_date''} \<longrightarrow>
                 map_of d' k = map_of d k) \<and>
           stringify_id d' = Inr r"
proof -
  let ?u = "build_update_doc p"
  from assms have tr: "except_Exception (update_try announcement_id ?u s) = (Inr r, s')"
    by (auto simp: update_announcement_def Let_def split: if_splits)
  then have body: "update_try announcement_id ?u s = (Inr r, s')"
    by (cases "update_try announcement_id ?u s"; cases "fst (update_try announcement_id ?u s)")
       auto
  then obtain oid where oid: "ObjectId announcement_id = Inr oid"
    by (cases "ObjectId announcement_id") (auto simp: update_try_def)
  let ?q = "Field_eq ''_id'' (BOid oid)"
  obtain n coll' where upd: "update_one ?q ?u (announcements_collection s) = (n, coll')"
    by (cases "update_one ?q ?u (announcements_collection s)")
  from body oid upd have n: "n \<noteq> 0" and s': "s' = s\<lparr>announcements_collection := coll'\<rparr>"
    by (auto simp: update_try_def Let_def split: if_splits option.splits)
  from update_one_cases [OF upd] n obtain pre d post where
    sp: "announcements_collection s = pre @ d # post"
      "\<forall>x \<in> set pre. \<not> matches ?q x" "matches ?q d"
      "coll' = pre @ set_fields ?u d # post"
    by auto
  let ?d' = "set_fields ?u d"
  have id': "map_of ?d' ''_id'' = map_of d ''_id''"
    by (rule set_fields_other) simp
  with sp(3) have "matches ?q ?d'" by (simp only: matches_id)
  with sp(2) have "find_one ?q coll' = Some ?d'"
    unfolding sp(4) by (rule find_one_first)
  with body oid upd n have r: "stringify_id ?d' = Inr r"
    by (simp add: update_try_def Let_def)
  show ?thesis
    using oid sp(1) sp(2) sp(3) s' sp(4) r
    by (intro exI [of _ oid] exI [of _ pre] exI [of _ d] exI [of _ ?d'] exI [of _ post])
       (simp add: matches_id set_fields_message set_fields_start_date
          set_fields_expiration_date set_fields_other del: matches.simps)
qed

text \<open>The request of the specification's example, on the sample database.\<close>

lemma ObjectId_sample_fair: "ObjectId ''000000000000000000000003'' = Inr (Oid [0, 0, 0, 0, 0, 0, 0, 0, 0, 0, 0, 3])"
  by (simp add: ObjectId_def hex_value_def isspace_def)

lemma str_sample_fair_id: "str (BOid (Oid [0, 0, 0, 0, 0, 0, 0, 0, 0, 0, 0, 3])) = ''000000000000000000000003''"
  by (simp add: hex_digit_def)

lemma build_update_doc_only_message: "build_update_doc (only_message ''X'') = [(''message'', BStr ''X'')]"
  by (simp add: build_update_doc_def only_message_def)

lemma update_one_sample_fair:
  "update_one (Field_eq ''_id'' (BOid (Oid [0, 0, 0, 0, 0, 0, 0, 0, 0, 0, 0, 3])))
     [(''message'', BStr ''X'')] (announcements_collection sample_db) =
   (1, [sample_exam, sample_menu,
         [(''_id'', BOid (Oid [0, 0, 0, 0, 0, 0, 0, 0, 0, 0, 0, 3])),
          (''message'', BStr ''X''),
          (''start_date'', BStr ''2026-03-01''),
          (''expiration_date'', BStr ''2026-06-30''),
          (''created_by'', BStr ''t1''),
          (''created_at'', BStr ''2026-02-01T12:30:00.000003'')],
         sample_trip, sample_prom])"
  by (simp add: sample_defs set_fields_def)

lemma find_one_sample_teacher:
  "find_one (Field_eq ''_id'' (BStr ''t1'')) (teachers_collection sample_db) = Some sample_teacher"
  by (simp add: find_one_def sample_db_def sample_teacher_def)

lemma find_one_updated_fair:
  "find_one (Field_eq ''_id'' (BOid (Oid [0, 0, 0, 0, 0, 0, 0, 0, 0, 0, 0, 3])))
     [sample_exam, sample_menu,
         [(''_id'', BOid (Oid [0, 0, 0, 0, 0, 0, 0, 0, 0, 0, 0, 3])),
          (''message'', BStr ''X''),
          (''start_date'', BStr ''2026-03-01''),
          (''expiration_date'', BStr ''2026-06-30''),
          (''created_by'', BStr ''t1''),
          (''created_at'', BStr ''2026-02-01T12:30:00.000003'')],
         sample_trip, sample_prom] =
   Some [(''_id'', BOid (Oid [0, 0, 0, 0, 0, 0, 0, 0, 0, 0, 0, 3])),
          (''message'', BStr ''X''),
          (''start_date'', BStr ''2026-03-01''),
          (''expiration_date'', BStr ''2026-06-30''),
          (''created_by'', BStr ''t1''),
          (''created_at'', BStr ''2026-02-01T12:30:00.000003'')]"
  by (simp add: find_one_def sample_exam_def sample_menu_def)

lemma sample_update:
  "update_announcement ''000000000000000000000003'' (only_message ''X'') ''t1'' sample_db =
     (Inr [(''_id'', BStr ''000000000000000000000003''),
           (''message'', BStr ''X''),
           (''start_date'', BStr ''2026-03-01''),
           (''expiration_date'', BStr ''2026-06-30''),
           (''created_by'', BStr ''t1''),
           (''created_at'', BStr ''2026-02-01T12:30:00.000003'')],
      sample_db\<lparr>announcements_collection :=
        [sample_exam, sample_menu,
         [(''_id'', BOid (Oid [0, 0, 0, 0, 0, 0, 0, 0, 0, 0, 0, 3])),
          (''message'', BStr ''X''),
          (''start_date'', BStr ''2026-03-01''),
          (''expiration_date'', BStr ''2026-06-30''),
          (''created_by'', BStr ''t1''),
          (''created_at'', BStr ''2026-02-01T12:30:00.000003'')],
         sample_trip, sample_prom]\<rparr>)"
  by (simp add: update_announcement_def update_try_def find_one_sample_teacher sample_teacher_def build_update_doc_only_message ObjectId_sample_fair
      update_one_sample_fair find_one_updated_fair stringify_id_def str_sample_fair_id del: str.simps)

theorem update_changes_only_patched_fields_witness:
  "update_announcement ''000000000000000000000003'' (only_message ''X'') ''t1'' sample_db =
     (Inr [(''_id'', BStr ''000000000000000000000003''),
           (''message'', BStr ''X''),
           (''start_date'', BStr ''2026-03-01''),
           (''expiration_date'', BStr ''2026-06-30''),
           (''created_by'', BStr ''t1''),
           (''created_at'', BStr ''2026-02-01T12:30:00.000003'')],
      sample_db\<lparr>announcements_collection :=
        [sample_exam, sample_menu,
         [(''_id'', BOid (Oid [0, 0, 0, 0, 0, 0, 0, 0, 0, 0, 0, 3])),
          (''message'', BStr ''X''),
          (''start_date'', BStr ''2026-03-01''),
          (''expiration_date'', BStr ''2026-06-30''),
          (''created_by'', BStr ''t1''),
          (''created_at'', BStr ''2026-02-01T12:30:00.000003'')],
         sample_trip, sample_prom]\<rparr>) \<and>
   (\<exists>pre d d' post.
      announcements_collection sample_db = pre @ d # post \<and>
      map_of d ''_id'' = Some (BOid (Oid [0, 0, 0, 0, 0, 0, 0, 0, 0, 0, 0, 3])) \<and>
      map_of d' ''message'' = Some (BStr ''X'') \<and>
      map_of d' ''start_date'' = map_of d ''start_date'' \<and>
      map_of d' ''expiration_date'' = map_of d ''expiration_date'' \<and>
      map_of d' ''created_by'' = map_of d ''created_by'' \<and>
      map_of d' ''created_at'' = map_of d ''created_at'')"
proof -
  from update_changes_only_patched_fields [OF sample_update]
  obtain oid' pre d d' post where
    h: "ObjectId ''000000000000000000000003'' = Inr oid'"
       "announcements_collection sample_db = pre @ d # post"
       "map_of d ''_id'' = Some (BOid oid')"
       "map_of d' ''message'' =
          (case upd_message (only_message ''X'') of None \<Rightarrow> map_of d ''message''
           | Some m \<Rightarrow> Some (BStr m))"
       "map_of d' ''start_date'' =
          (case upd_start_date (only_message ''X'') of None \<Rightarrow> map_of d ''start_date''
           | Some v \<Rightarrow> Some (BStr v))"
       "map_of d' ''expiration_date'' =
          (case upd_expiration_date (only_message ''X'') of None \<Rightarrow> map_of d ''expiration_date''
           | Some v \<Rightarrow> Some (BStr v))"
       "\<forall>k. k \<notin> {''message'', ''start_date'', ''expiration_date''} \<longrightarrow> map_of d' k = map_of d k"
    by (elim exE conjE) (rule that)
  from h(1) have o: "oid' = Oid [0, 0, 0, 0, 0, 0, 0, 0, 0, 0, 0, 3]"
    by (simp add: ObjectId_sample_fair)
  have m: "map_of d' ''message'' = Some (BStr ''X'')"
    using h(4) by (simp add: only_message_def)
  have sd: "map_of d' ''start_date'' = map_of d ''start_date''"
    using h(5) by (simp add: only_message_def)
  have ed: "map_of d' ''expiration_date'' = map_of d ''expiration_date''"
    using h(6) by (simp add: only_message_def)
  have nb: "''created_by'' \<notin> {''message'', ''start_date'', ''expiration_date''}"
    and na: "''created_at'' \<notin> {''message'', ''start_date'', ''expiration_date''}"
    by simp_all
  have cb: "map_of d' ''created_by'' = map_of d ''created_by''"
    by (rule h(7) [rule_format, OF nb])
  have ca: "map_of d' ''created_at'' = map_of d ''created_at''"
    by (rule h(7) [rule_format, OF na])
  have ex: "\<exists>pre d d' post.
      announcements_collection sample_db = pre @ d # post \<and>
      map_of d ''_id'' = Some (BOid (Oid [0, 0, 0, 0, 0, 0, 0, 0, 0, 0, 0, 3])) \<and>
      map_of d' ''message'' = Some (BStr ''X'') \<and>
      map_of d' ''start_date'' = map_of d ''start_date'' \<and>
      map_of d' ''expiration_date'' = map_of d ''expiration_date'' \<and>
      map_of d' ''created_by'' = map_of d ''created_by'' \<and>
      map_of d' ''created_at'' = map_of d ''created_at''"
    using h(2) h(3) [unfolded o] m sd ed cb ca
    by (intro exI [of _ pre] exI [of _ d] exI [of _ d'] exI [of _ post] conjI)
  show ?thesis
    by (rule conjI [OF sample_update ex])
qed

text \<open>
  C7. For a caller in the Teacher Directory and a patch whose three fields are all
  \<open>None\<close>, \<open>update_announcement\<close> raises \<open>HTTPException 400\<close> with the detail
  \<open>No fields to update\<close>, whatever the identifier, and the database is as before.
\<close>

theorem update_empty_patch_rejected:
  assumes "in_directory username s"
      and "upd_message p = None" and "upd_start_date p = None"
      and "upd_expiration_date p = None"
  shows "update_announcement announcement_id p username s =
           (Inl (HTTPException 400 (Detail ''No fields to update'')), s)"
  using assms by (simp add: update_announcement_def not_doc_teacher build_update_doc_Nil)

theorem update_empty_patch_rejected_witness:
  "in_directory ''t1'' sample_db \<and>
   upd_message empty_patch = None \<and> upd_start_date empty_patch = None \<and>
   upd_expiration_date empty_patch = None \<and>
   update_announcement ''000000000000000000000003'' empty_patch ''t1'' sample_db =
     (Inl (HTTPException 400 (Detail ''No fields to update'')), sample_db) \<and>
   update_announcement ''not-an-id'' empty_patch ''t1'' sample_db =
     (Inl (HTTPException 400 (Detail ''No fields to update'')), sample_db)"
  using update_empty_patch_rejected [of "''t1''" sample_db empty_patch "''000000000000000000000003''"]
    update_empty_patch_rejected [of "''t1''" sample_db empty_patch "''not-an-id''"]
    sample_known
  by (simp add: empty_patch_def)

section \<open>Precedence of the authorization check\<close>

text \<open>
  C8. For a caller who is not in the Teacher Directory, \<open>update_announcement\<close> and
  \<open>delete_announcement\<close> raise \<open>HTTPException 401 Unauthorized\<close> for every identifier
  and every patch, the empty patch and a malformed identifier included; the database is
  as before, and the answer is the same whatever the announcements collection holds.
\<close>

theorem unauthorized_before_other_checks:
  assumes "\<not> in_directory username s"
  shows "update_announcement announcement_id p username s =
           (Inl (HTTPException 401 (Detail ''Unauthorized'')), s)
       \<and> delete_announcement announcement_id username s =
           (Inl (HTTPException 401 (Detail ''Unauthorized'')), s)
       \<and> (\<forall>coll. fst (update_announcement announcement_id p username
                        (s\<lparr>announcements_collection := coll\<rparr>)) =
                   Inl (HTTPException 401 (Detail ''Unauthorized''))
              \<and> fst (delete_announcement announcement_id username
                        (s\<lparr>announcements_collection := coll\<rparr>)) =
                   Inl (HTTPException 401 (Detail ''Unauthorized'')))"
  using assms
  by (simp add: update_announcement_def delete_announcement_def not_doc_teacher
      in_directory_def Unauthorized_def)

theorem unauthorized_before_other_checks_witness:
  "\<not> in_directory ''mallory'' sample_db \<and>
   update_announcement ''not-an-id'' empty_patch ''mallory'' sample_db =
     (Inl (HTTPException 401 (Detail ''Unauthorized'')), sample_db) \<and>
   delete_announcement ''not-an-id'' ''mallory'' sample_db =
     (Inl (HTTPException 401 (Detail ''Unauthorized'')), sample_db)"
  using unauthorized_before_other_checks [of "''mallory''" sample_db "''not-an-id''" empty_patch]
    sample_unknown
  by simp

section \<open>The Teacher Directory is only read\<close>

lemma except_Exception_teachers:
  "teachers_collection (snd (except_Exception x)) = teachers_collection (snd x)"
  by (cases x; cases "fst x") auto

lemma update_try_teachers:
  "teachers_collection (snd (update_try i u s)) = teachers_collection s"
  by (auto simp: update_try_def Let_def split: sum.splits prod.splits option.splits)

lemma delete_try_teachers:
  "teachers_collection (snd (delete_try i s)) = teachers_collection s"
  by (auto simp: delete_try_def Let_def split: sum.splits prod.splits)

text \<open>
  C10. Each of the five handlers leaves \<open>teachers_collection\<close> as it found it, whether
  it returns or raises.
\<close>

theorem teacher_directory_never_modified:
  "teachers_collection (snd (get_active_announcements today s)) = teachers_collection s
   \<and> teachers_collection (snd (get_all_announcements username s)) = teachers_collection s
   \<and> teachers_collection (snd (create_announcement a now_iso new_id s)) = teachers_collection s
   \<and> teachers_collection (snd (update_announcement announcement_id p username s))
       = teachers_collection s
   \<and> teachers_collection (snd (delete_announcement announcement_id username s))
       = teachers_collection s"
proof (intro conjI)
  show "teachers_collection (snd (get_active_announcements today s)) = teachers_collection s"
    by (simp add: get_active_announcements_def Let_def split: sum.splits)
  show "teachers_collection (snd (get_all_announcements username s)) = teachers_collection s"
    by (simp add: get_all_announcements_def Let_def)
  show "teachers_collection (snd (create_announcement a now_iso new_id s)) = teachers_collection s"
    by (simp add: create_announcement_def Let_def split: sum.splits prod.splits option.splits)
  show "teachers_collection (snd (update_announcement announcement_id p username s))
          = teachers_collection s"
    by (simp add: update_announcement_def Let_def except_Exception_teachers update_try_teachers)
  show "teachers_collection (snd (delete_announcement announcement_id username s))
          = teachers_collection s"
    by (simp add: delete_announcement_def Let_def except_Exception_teachers delete_try_teachers)
qed

section \<open>An identifier that matches no document\<close>

lemma delete_one_unmatched:
  "\<forall>d \<in> set ds. \<not> matches q d \<Longrightarrow> delete_one q ds = (0, ds)"
  by (induction ds) auto

text \<open>
  The exception that the \<open>try\<close> block raises for an unmatched identifier is caught by
  the handler of the same block: the caller sees status 400, with the 404 inside the
  detail.
\<close>

lemma update_unmatched_id:
  assumes "in_directory username s" and "build_update_doc p \<noteq> []"
      and "ObjectId announcement_id = Inr oid"
      and "\<forall>d \<in> set (announcements_collection s). map_of d ''_id'' \<noteq> Some (BOid oid)"
  shows "update_announcement announcement_id p username s =
           (Inl (HTTPException 400
              (Invalid_announcement_ID (HTTPException 404 (Detail ''Announcement not found'')))), s)"
proof -
  have "update_one (Field_eq ''_id'' (BOid oid)) (build_update_doc p) (announcements_collection s)
          = (0, announcements_collection s)"
    using assms(4) by (intro update_one_unmatched) (simp add: matches_id del: matches.simps)
  with assms(1-3) show ?thesis
    by (simp add: update_announcement_def not_doc_teacher update_try_def)
qed

lemma delete_unmatched_id:
  assumes "in_directory username s"
      and "ObjectId announcement_id = Inr oid"
      and "\<forall>d \<in> set (announcements_collection s). map_of d ''_id'' \<noteq> Some (BOid oid)"
  shows "delete_announcement announcement_id username s =
           (Inl (HTTPException 400
              (Invalid_announcement_ID (HTTPException 404 (Detail ''Announcement not found'')))), s)"
proof -
  have "delete_one (Field_eq ''_id'' (BOid oid)) (announcements_collection s)
          = (0, announcements_collection s)"
    using assms(3) by (intro delete_one_unmatched) (simp add: matches_id del: matches.simps)
  with assms(1,2) show ?thesis
    by (simp add: delete_announcement_def not_doc_teacher delete_try_def)
qed

lemma ObjectId_unmatched:
  "ObjectId ''00000000000000000000000f'' = Inr (Oid [0, 0, 0, 0, 0, 0, 0, 0, 0, 0, 0, 15])"
  by (simp add: ObjectId_def hex_value_def isspace_def)

lemma ObjectId_malformed: "ObjectId ''not-an-id'' = Inl (InvalidId ''not-an-id'')"
  by (simp add: ObjectId_def)

lemma ObjectId_sample_exam:
  "ObjectId ''000000000000000000000001'' = Inr (Oid [0, 0, 0, 0, 0, 0, 0, 0, 0, 0, 0, 1])"
  by (simp add: ObjectId_def hex_value_def isspace_def)

lemma sample_no_f:
  "\<forall>d \<in> set (announcements_collection sample_db).
     map_of d ''_id'' \<noteq> Some (BOid (Oid [0, 0, 0, 0, 0, 0, 0, 0, 0, 0, 0, 15]))"
  by (simp add: sample_defs)

lemma only_message_nonempty: "build_update_doc (only_message m) \<noteq> []"
  by (simp add: build_update_doc_Nil only_message_def)

text \<open>
  C1. A known caller updates with a non-empty patch and the well-formed identifier
  \<open>00000000000000000000000f\<close>, which no stored document has. The claim expects status
  404; \<open>update_announcement\<close> answers 400, the status it also gives for the identifier
  \<open>not-an-id\<close> that does not parse.
\<close>

theorem update_unknown_id_answers_400:
  "update_announcement ''00000000000000000000000f'' (only_message ''X'') ''t1'' sample_db
     = (Inl (HTTPException 400
          (Invalid_announcement_ID (HTTPException 404 (Detail ''Announcement not found'')))),
        sample_db)
   \<and> update_announcement ''not-an-id'' (only_message ''X'') ''t1'' sample_db
     = (Inl (HTTPException 400 (Invalid_announcement_ID (InvalidId ''not-an-id''))), sample_db)"
proof (rule conjI)
  show "update_announcement ''00000000000000000000000f'' (only_message ''X'') ''t1'' sample_db
     = (Inl (HTTPException 400
          (Invalid_announcement_ID (HTTPException 404 (Detail ''Announcement not found'')))),
        sample_db)"
    by (rule update_unmatched_id [OF sample_known only_message_nonempty ObjectId_unmatched sample_no_f])
  show "update_announcement ''not-an-id'' (only_message ''X'') ''t1'' sample_db
     = (Inl (HTTPException 400 (Invalid_announcement_ID (InvalidId ''not-an-id''))), sample_db)"
    using sample_known only_message_nonempty [of "''X''"]
    by (simp add: update_announcement_def not_doc_teacher update_try_def ObjectId_malformed)
qed

lemma sample_delete_one:
  "delete_one (Field_eq ''_id'' (BOid (Oid [0, 0, 0, 0, 0, 0, 0, 0, 0, 0, 0, 1])))
     (announcements_collection sample_db) =
   (1, [sample_menu, sample_fair, sample_trip, sample_prom])"
  by (simp add: sample_db_def sample_exam_def)

lemma sample_after_delete_known:
  "in_directory ''t1''
     (sample_db\<lparr>announcements_collection := [sample_menu, sample_fair, sample_trip, sample_prom]\<rparr>)"
  using sample_known by (simp add: in_directory_def)

lemma sample_after_delete_no_1:
  "\<forall>d \<in> set (announcements_collection
       (sample_db\<lparr>announcements_collection := [sample_menu, sample_fair, sample_trip, sample_prom]\<rparr>)).
     map_of d ''_id'' \<noteq> Some (BOid (Oid [0, 0, 0, 0, 0, 0, 0, 0, 0, 0, 0, 1]))"
  by (simp add: sample_defs)

text \<open>
  C2. A known caller deletes the stored announcement \<open>000000000000000000000001\<close>
  twice. The first call returns the confirmation message and removes the document. The
  claim expects status 404 from the second call; \<open>delete_announcement\<close> answers 400.
\<close>

theorem delete_twice_answers_400:
  "delete_announcement ''000000000000000000000001'' ''t1'' sample_db
     = (Inr [(''message'', BStr ''Announcement deleted successfully'')],
        sample_db\<lparr>announcements_collection :=
          [sample_menu, sample_fair, sample_trip, sample_prom]\<rparr>)
   \<and> delete_announcement ''000000000000000000000001'' ''t1''
       (sample_db\<lparr>announcements_collection :=
          [sample_menu, sample_fair, sample_trip, sample_prom]\<rparr>)
     = (Inl (HTTPException 400
          (Invalid_announcement_ID (HTTPException 404 (Detail ''Announcement not found'')))),
        sample_db\<lparr>announcements_collection :=
          [sample_menu, sample_fair, sample_trip, sample_prom]\<rparr>)"
proof (rule conjI)
  show "delete_announcement ''000000000000000000000001'' ''t1'' sample_db
     = (Inr [(''message'', BStr ''Announcement deleted successfully'')],
        sample_db\<lparr>announcements_collection :=
          [sample_menu, sample_fair, sample_trip, sample_prom]\<rparr>)"
    using sample_known
    by (simp add: delete_announcement_def not_doc_teacher delete_try_def ObjectId_sample_exam sample_delete_one
        del: One_nat_def)
  show "delete_announcement ''000000000000000000000001'' ''t1''
       (sample_db\<lparr>announcements_collection :=
          [sample_menu, sample_fair, sample_trip, sample_prom]\<rparr>)
     = (Inl (HTTPException 400
          (Invalid_announcement_ID (HTTPException 404 (Detail ''Announcement not found'')))),
        sample_db\<lparr>announcements_collection :=
          [sample_menu, sample_fair, sample_trip, sample_prom]\<rparr>)"
    by (rule delete_unmatched_id [OF sample_after_delete_known ObjectId_sample_exam sample_after_delete_no_1])
qed

end
